theory Spec2Isabelle
  imports Main "HOL-Library.Finite_Map"
begin

section \<open>JavaScript values, errors and promises\<close>

text \<open>
  The client of \<^verbatim>\<open>src/index.ts\<close> handles parsed JSON bodies typed \<^verbatim>\<open>any\<close>. They are
  modelled by the JSON values plus \<^verbatim>\<open>undefined\<close>, which a property read yields for an
  absent key. Numbers are restricted to integers; objects are finite maps from keys to
  values, so that no order of keys is fixed.
\<close>

datatype jsval =
    JUndefined
  | JNull
  | JBool bool
  | JNum int
  | JStr string
  | JArr "jsval list"
  | JObj "(string, jsval) fmap"

text \<open>An object literal, for writing concrete records.\<close>

definition obj :: "(string \<times> jsval) list \<Rightarrow> jsval" where
  "obj kvs = JObj (fmap_of_list kvs)"

text \<open>The truth value JavaScript gives a value in \<^verbatim>\<open>if (v)\<close> and \<^verbatim>\<open>!v\<close>.\<close>

fun truthy :: "jsval \<Rightarrow> bool" where
  "truthy JUndefined = False"
| "truthy JNull = False"
| "truthy (JBool b) = b"
| "truthy (JNum n) = (n \<noteq> 0)"
| "truthy (JStr s) = (s \<noteq> [])"
| "truthy (JArr xs) = True"
| "truthy (JObj m) = True"

text \<open>
  A failure raised outside the client (the network, the JSON parser, the token library,
  the file system) is named by the environment.
\<close>

type_synonym ext_error = string

datatype js_error =
    Error string         \<comment> \<open>an \<^verbatim>\<open>Error\<close> object, which holds its message\<close>
  | TypeError            \<comment> \<open>a property read on \<^verbatim>\<open>null\<close> or \<^verbatim>\<open>undefined\<close>\<close>
  | External ext_error   \<comment> \<open>an error thrown by a collaborator\<close>

text \<open>
  Property reads \<^verbatim>\<open>v.k\<close>, for the keys the client reads (none of them is inherited from
  a prototype): reading from \<^verbatim>\<open>null\<close> or \<^verbatim>\<open>undefined\<close> throws, an absent key gives
  \<^verbatim>\<open>undefined\<close>.
\<close>

fun nullish :: "jsval \<Rightarrow> bool" where
  "nullish JUndefined = True"
| "nullish JNull = True"
| "nullish v = False"

fun read_prop :: "jsval \<Rightarrow> string \<Rightarrow> jsval" where
  "read_prop (JObj m) k = (case fmlookup m k of None \<Rightarrow> JUndefined | Some v \<Rightarrow> v)"
| "read_prop v k = JUndefined"

definition get_prop :: "jsval \<Rightarrow> string \<Rightarrow> js_error + jsval" where
  "get_prop v k = (if nullish v then Inl TypeError else Inr (read_prop v k))"

text \<open>
  String conversion, as a template literal and the \<^verbatim>\<open>Error\<close> constructor perform it, for
  integers printed without an exponent and objects with no \<^verbatim>\<open>toString\<close> or \<^verbatim>\<open>valueOf\<close>
  key of their own: every such object converts to the same string.
\<close>

definition digit_char :: "nat \<Rightarrow> char" where
  "digit_char d = ''0123456789'' ! d"

function show_nat :: "nat \<Rightarrow> string" where
  "show_nat n =
     (if n < 10 then [digit_char n] else show_nat (n div 10) @ [digit_char (n mod 10)])"
  by pat_completeness auto
termination
  by (relation "measure id") auto

declare show_nat.simps [simp del]

fun join_comma :: "string list \<Rightarrow> string" where
  "join_comma [] = []"
| "join_comma [s] = s"
| "join_comma (s # t # ss) = s @ '','' @ join_comma (t # ss)"

fun to_string :: "jsval \<Rightarrow> string" where
  "to_string JUndefined = ''undefined''"
| "to_string JNull = ''null''"
| "to_string (JBool b) = (if b then ''true'' else ''false'')"
| "to_string (JNum n) = (if n < 0 then CHR ''-'' # show_nat (nat (- n)) else show_nat (nat n))"
| "to_string (JStr s) = s"
| "to_string (JArr xs) =
     join_comma (map (\<lambda>x. if nullish x then [] else to_string x) xs)"
| "to_string (JObj m) = ''[object Object]''"

text \<open>
  \<^verbatim>\<open>new Error(x)\<close> keeps the string conversion of its argument as the message, and the
  empty message when the argument is \<^verbatim>\<open>undefined\<close>. The argument itself is not kept.
\<close>

definition new_Error :: "jsval \<Rightarrow> js_error" where
  "new_Error x = Error (if x = JUndefined then [] else to_string x)"

text \<open>
  A promise is pending, resolved with a value or rejected with an error; once settled
  it ignores every later \<^verbatim>\<open>resolve\<close> and \<^verbatim>\<open>reject\<close>.
\<close>

datatype 'a promise = Pending | Resolved 'a | Rejected js_error

section \<open>Responses, requests and the client\<close>

type_synonym bytes = "char list"

record response =
  status :: int
  ok :: bool
  statusText :: string
  json :: "ext_error + jsval"   \<comment> \<open>what \<^verbatim>\<open>response.json()\<close> settles to\<close>
  body :: "bytes option"        \<comment> \<open>\<^verbatim>\<open>response.body\<close>: \<^verbatim>\<open>null\<close> or a stream of bytes\<close>

datatype form_value = FormText string | FormFile bytes

datatype req_body =
    FormBody "(string \<times> form_value) list"
  | JsonBody jsval   \<comment> \<open>the string \<^verbatim>\<open>JSON.stringify(v)\<close>, kept as the value \<open>v\<close>\<close>

record request =
  url :: jsval
  http_method :: string
  req_body :: "req_body option"
  headers :: "(string \<times> string) list"

text \<open>What the client does to the outside world, in the order it does it.\<close>

datatype timer_name = AbortTimer | CheckTimer

datatype effect =
    Log "jsval list"               \<comment> \<open>\<^verbatim>\<open>this.logger.log(...)\<close>\<close>
  | Request request                \<comment> \<open>a network request handed to node-fetch\<close>
  | ReadJson                       \<comment> \<open>\<^verbatim>\<open>response.json()\<close> is called\<close>
  | SetTimeout timer_name nat      \<comment> \<open>a timer is armed with its delay in ms\<close>
  | Unhandled js_error             \<comment> \<open>a rejection nobody handles\<close>

text \<open>
  The token library \<^verbatim>\<open>jsonwebtoken\<close> is a collaborator: \<^verbatim>\<open>jwt.sign\<close> is a parameter
  taking the issuer, the secret and the lifetime, and giving a token or throwing.
\<close>

type_synonym jwt_sign = "string \<Rightarrow> string \<Rightarrow> nat \<Rightarrow> ext_error + string"

record client =
  apiKey :: string
  apiSecret :: string
  apiUrlPrefix :: string
  apiJwtExpiresIn :: nat
  debugLogging :: bool
  validationCheckInterval :: nat
  validationCheckTimeout :: nat
  approvalCheckInterval :: nat
  approvalCheckTimeout :: nat
  downloadDir :: string
  defaultJwt :: jwt_sign

text \<open>
  \<^verbatim>\<open>fetch(url, method, body, jwt)\<close>: signs a token, logs the URL and hands the request to
  node-fetch. The model gives the effects of the call, or the error \<^verbatim>\<open>jwt.sign\<close> threw;
  what the returned promise settles to is the environment's answer.
\<close>

definition is_string_body :: "req_body option \<Rightarrow> bool" where
  "is_string_body b = (case b of Some (JsonBody v) \<Rightarrow> True | _ \<Rightarrow> False)"

definition fetch ::
  "client \<Rightarrow> jsval \<Rightarrow> string \<Rightarrow> req_body option \<Rightarrow> jwt_sign \<Rightarrow> js_error + effect list" where
  "fetch c u m b jwt =
     (case jwt (apiKey c) (apiSecret c) (apiJwtExpiresIn c) of
        Inl e \<Rightarrow> Inl (External e)
      | Inr authToken \<Rightarrow>
          Inr [Log [JStr (''Fetching URL: '' @ to_string u)],
               Request \<lparr>url = u, http_method = m, req_body = b,
                 headers =
                   (if is_string_body b
                    then [(''Authorization'', ''JWT '' @ authToken),
                          (''Accept'', ''application/json''),
                          (''Content-Type'', ''application/json'')]
                    else [(''Authorization'', ''JWT '' @ authToken),
                          (''Accept'', ''application/json'')])\<rparr>])"

subsection \<open>getJson\<close>

text \<open>
  The executor of \<^verbatim>\<open>getJson\<close> is an async function: when \<^verbatim>\<open>response.json()\<close> fails,
  the executor's own promise is rejected and nobody settles the promise returned.
\<close>

definition getJson :: "response \<Rightarrow> jsval promise \<times> effect list" where
  "getJson r =
     (if status r < 100 \<or> status r \<ge> 500
      then (Rejected (Error (''Getting response failed: '' @ statusText r @ ''.'')), [])
      else (case json r of
              Inl e \<Rightarrow> (Pending, [ReadJson, Unhandled (External e)])
            | Inr data \<Rightarrow>
                if \<not> ok r
                then (Rejected (Error ''Bad Request''), [ReadJson, Log [data]])
                else (Resolved data, [ReadJson])))"

subsection \<open>saveFile\<close>

text \<open>
  The file system maps paths to contents. How the write stream ends is the
  environment's answer: it finishes, or it fails with an error and leaves at the
  destination what it had written, if it had opened the file at all.
\<close>

type_synonym filesystem = "string \<rightharpoonup> bytes"

datatype write_outcome = Written | WriteFailed ext_error "bytes option"

definition saveFile ::
  "client \<Rightarrow> response \<Rightarrow> write_outcome \<Rightarrow> filesystem \<Rightarrow> jsval promise \<times> filesystem" where
  "saveFile c r w fs =
     (if \<not> ok r \<or> body r = None
      then (Rejected (Error (''Download of signed xpi failed: '' @ statusText r @ ''.'')),
            fs)
      else (let dest = downloadDir c @ ''/the.xpi'' in
            case w of
              Written \<Rightarrow> (Resolved JUndefined, fs(dest \<mapsto> the (body r)))
            | WriteFailed e left \<Rightarrow>
                (Rejected (External e),
                 case left of None \<Rightarrow> fs | Some part \<Rightarrow> fs(dest \<mapsto> part))))"

subsection \<open>The submit requests\<close>



text \<open>
  \<^verbatim>\<open>fileFromSync\<close> of node-fetch is a collaborator, given as a parameter: it reads the
  file at a path or throws.
\<close>

type_synonym file_reader = "string \<Rightarrow> ext_error + bytes"






subsection \<open>The closures of the two workflows\<close>

text \<open>
  \<^verbatim>\<open>extractFileFromData\<close> and \<^verbatim>\<open>getDetailUrl\<close> are local to \<^verbatim>\<open>submitAddon\<close> and to
  \<^verbatim>\<open>submitVersion\<close>; each takes the variables it captures as arguments.
\<close>

definition submitAddon_extractFileFromData :: "string \<Rightarrow> jsval \<Rightarrow> js_error + jsval" where
  "submitAddon_extractFileFromData channel data =
     (if channel = ''listed''
      then (case get_prop data ''current_version'' of
              Inl e \<Rightarrow> Inl e
            | Inr v \<Rightarrow> get_prop v ''file'')
      else (case get_prop data ''latest_unlisted_version'' of
              Inl e \<Rightarrow> Inl e
            | Inr v \<Rightarrow> get_prop v ''file''))"

definition submitVersion_extractFileFromData :: "jsval \<Rightarrow> js_error + jsval" where
  "submitVersion_extractFileFromData data = get_prop data ''file''"



section \<open>The pollers\<close>

text \<open>
  One invocation of \<^verbatim>\<open>waitForValidation\<close> or \<^verbatim>\<open>waitForApproval\<close> owns the promise it
  returns, the abort timer, the variable holding the latest poll timer, and the poll
  attempt in flight, which waits at one of the two \<^verbatim>\<open>await\<close>s of the poll function.
  Timers fire and awaited promises settle when the environment decides: these are the
  events, and the poller is a transition system over them.
\<close>

datatype timer = Unset | Armed | Cleared | Fired

datatype poll_stage = Idle | AwaitFetch | AwaitJson response

record poller =
  promise :: "jsval promise"
  abortTimeout :: timer
  checkTimeout :: timer
  poll :: poll_stage
  trace :: "effect list"

datatype event =
    AbortFires                         \<comment> \<open>the abort timer's callback runs\<close>
  | CheckFires                         \<comment> \<open>the poll timer's callback runs\<close>
  | FetchDone "ext_error + response"   \<comment> \<open>the awaited \<^verbatim>\<open>this.fetch(...)\<close> settles\<close>
  | JsonDone                           \<comment> \<open>the awaited \<^verbatim>\<open>detailResponse.json()\<close> settles\<close>

definition new_poller :: poller where
  "new_poller =
     \<lparr>promise = Pending, abortTimeout = Unset, checkTimeout = Unset, poll = Idle, trace = []\<rparr>"

definition resolve :: "jsval \<Rightarrow> poller \<Rightarrow> poller" where
  "resolve v s = (if promise s = Pending then s\<lparr>promise := Resolved v\<rparr> else s)"

definition reject :: "js_error \<Rightarrow> poller \<Rightarrow> poller" where
  "reject e s = (if promise s = Pending then s\<lparr>promise := Rejected e\<rparr> else s)"

definition clearTimeout :: "timer \<Rightarrow> timer" where
  "clearTimeout t = (if t = Armed then Cleared else t)"

definition emit :: "effect list \<Rightarrow> poller \<Rightarrow> poller" where
  "emit es s = s\<lparr>trace := trace s @ es\<rparr>"

text \<open>The \<^verbatim>\<open>catch\<close> block both poll functions share.\<close>

definition catch_block :: "js_error \<Rightarrow> poller \<Rightarrow> poller" where
  "catch_block err s = reject err (s\<lparr>abortTimeout := clearTimeout (abortTimeout s)\<rparr>)"

text \<open>A call of the poll function runs up to its first \<^verbatim>\<open>await\<close>.\<close>

definition poll_call :: "client \<Rightarrow> string \<Rightarrow> poller \<Rightarrow> poller" where
  "poll_call c detailUrl s =
     (case fetch c (JStr detailUrl) ''GET'' None (defaultJwt c) of
        Inl err \<Rightarrow> catch_block err (s\<lparr>poll := Idle\<rparr>)
      | Inr effs \<Rightarrow> emit effs (s\<lparr>poll := AwaitFetch\<rparr>))"

subsection \<open>waitForValidation\<close>

definition uploadDetailUrl :: "client \<Rightarrow> jsval \<Rightarrow> string" where
  "uploadDetailUrl c data =
     apiUrlPrefix c @ ''addons/upload/'' @ to_string (read_prop data ''uuid'') @ ''/''"

text \<open>
  The executor of the promise. A \<^verbatim>\<open>throw\<close> in an executor rejects the promise, which
  is what reading \<^verbatim>\<open>data.uuid\<close> of \<^verbatim>\<open>null\<close> does.
\<close>

definition waitForValidation :: "client \<Rightarrow> jsval \<Rightarrow> poller" where
  "waitForValidation c data =
     (case get_prop data ''uuid'' of
        Inl err \<Rightarrow> reject err new_poller
      | Inr uuid \<Rightarrow>
          if \<not> truthy uuid then reject (new_Error data) new_poller
          else poll_call c (uploadDetailUrl c data)
                 (emit [SetTimeout AbortTimer (validationCheckTimeout c)]
                    (new_poller\<lparr>abortTimeout := Armed\<rparr>)))"

text \<open>The abort timer's callback.\<close>

definition validation_abort :: "poller \<Rightarrow> poller" where
  "validation_abort s =
     reject (Error ''Validation Timeout.'')
       (s\<lparr>checkTimeout := clearTimeout (checkTimeout s)\<rparr>)"

text \<open>
  \<^verbatim>\<open>pollValidationStatus\<close> after \<^verbatim>\<open>await this.fetch(...)\<close>: a response that is not ok
  rejects, and the function goes on to read the body.
\<close>

definition validation_fetched :: "response \<Rightarrow> poller \<Rightarrow> poller" where
  "validation_fetched detailResponse s =
     emit [ReadJson]
       ((if \<not> ok detailResponse
         then reject (Error (''Getting upload details failed: ''
                               @ statusText detailResponse @ ''.'')) s
         else s)\<lparr>poll := AwaitJson detailResponse\<rparr>)"

text \<open>\<^verbatim>\<open>pollValidationStatus\<close> after \<^verbatim>\<open>await detailResponse.json()\<close>.\<close>

definition validation_parsed :: "client \<Rightarrow> jsval \<Rightarrow> poller \<Rightarrow> poller" where
  "validation_parsed c detailResponseData s =
     (if nullish detailResponseData then catch_block TypeError s
      else if truthy (read_prop detailResponseData ''processed'')
      then (let s1 = emit [Log [JStr ''Validation results:'',
                                read_prop detailResponseData ''validation'']] s in
            if truthy (read_prop detailResponseData ''valid'')
            then resolve (read_prop detailResponseData ''uuid'') s1
            else (let s2 = emit [Log [JStr ''Validation failed.'']] s1;
                      s3 = s2\<lparr>abortTimeout := clearTimeout (abortTimeout s2)\<rparr>
                  in reject (new_Error (read_prop detailResponseData ''url'')) s3))
      else emit [SetTimeout CheckTimer (validationCheckInterval c)]
             (s\<lparr>checkTimeout := Armed\<rparr>))"

text \<open>
  One event. An event that cannot happen in a state (a timer that is not armed fires,
  a promise nobody awaits settles) leaves the state as it is.
\<close>

fun validation_step :: "client \<Rightarrow> jsval \<Rightarrow> event \<Rightarrow> poller \<Rightarrow> poller" where
  "validation_step c data AbortFires s =
     (if abortTimeout s = Armed then validation_abort (s\<lparr>abortTimeout := Fired\<rparr>) else s)"
| "validation_step c data CheckFires s =
     (if checkTimeout s = Armed
      then poll_call c (uploadDetailUrl c data) (s\<lparr>checkTimeout := Fired\<rparr>)
      else s)"
| "validation_step c data (FetchDone r) s =
     (if poll s = AwaitFetch
      then (case r of
              Inl e \<Rightarrow> catch_block (External e) (s\<lparr>poll := Idle\<rparr>)
            | Inr detailResponse \<Rightarrow> validation_fetched detailResponse s)
      else s)"
| "validation_step c data JsonDone s =
     (case poll s of
        AwaitJson detailResponse \<Rightarrow>
          (case json detailResponse of
             Inl e \<Rightarrow> catch_block (External e) (s\<lparr>poll := Idle\<rparr>)
           | Inr detailResponseData \<Rightarrow>
               validation_parsed c detailResponseData (s\<lparr>poll := Idle\<rparr>))
      | _ \<Rightarrow> s)"

subsection \<open>waitForApproval\<close>

definition waitForApproval :: "client \<Rightarrow> string \<Rightarrow> poller" where
  "waitForApproval c detailUrl =
     poll_call c detailUrl
       (emit [SetTimeout AbortTimer (approvalCheckTimeout c)]
          (new_poller\<lparr>abortTimeout := Armed\<rparr>))"

definition approval_abort :: "poller \<Rightarrow> poller" where
  "approval_abort s =
     reject (Error ''Approval Timeout.'')
       (s\<lparr>checkTimeout := clearTimeout (checkTimeout s)\<rparr>)"

text \<open>
  \<^verbatim>\<open>pollApprovalStatus\<close> after \<^verbatim>\<open>await this.fetch(...)\<close>: a response that is not ok
  rejects and returns.
\<close>

definition approval_fetched :: "response \<Rightarrow> poller \<Rightarrow> poller" where
  "approval_fetched detailResponse s =
     (if \<not> ok detailResponse
      then reject (Error ''Getting addon details failed.'') (s\<lparr>poll := Idle\<rparr>)
      else emit [ReadJson] (s\<lparr>poll := AwaitJson detailResponse\<rparr>))"

definition approval_parsed ::
  "client \<Rightarrow> (jsval \<Rightarrow> js_error + jsval) \<Rightarrow> jsval \<Rightarrow> poller \<Rightarrow> poller" where
  "approval_parsed c extractFileFromData detailResponseData s =
     (case extractFileFromData detailResponseData of
        Inl err \<Rightarrow> catch_block err s
      | Inr file \<Rightarrow>
          (case get_prop file ''status'' of
             Inl err \<Rightarrow> catch_block err s
           | Inr st \<Rightarrow>
               if st = JStr ''public'' then resolve (read_prop file ''url'') s
               else emit [SetTimeout CheckTimer (approvalCheckInterval c)]
                      (s\<lparr>checkTimeout := Armed\<rparr>)))"

fun approval_step ::
  "client \<Rightarrow> (jsval \<Rightarrow> js_error + jsval) \<Rightarrow> string \<Rightarrow> event \<Rightarrow> poller \<Rightarrow> poller" where
  "approval_step c extractFileFromData detailUrl AbortFires s =
     (if abortTimeout s = Armed then approval_abort (s\<lparr>abortTimeout := Fired\<rparr>) else s)"
| "approval_step c extractFileFromData detailUrl CheckFires s =
     (if checkTimeout s = Armed then poll_call c detailUrl (s\<lparr>checkTimeout := Fired\<rparr>) else s)"
| "approval_step c extractFileFromData detailUrl (FetchDone r) s =
     (if poll s = AwaitFetch
      then (case r of
              Inl e \<Rightarrow> catch_block (External e) (s\<lparr>poll := Idle\<rparr>)
            | Inr detailResponse \<Rightarrow> approval_fetched detailResponse s)
      else s)"
| "approval_step c extractFileFromData detailUrl JsonDone s =
     (case poll s of
        AwaitJson detailResponse \<Rightarrow>
          (case json detailResponse of
             Inl e \<Rightarrow> catch_block (External e) (s\<lparr>poll := Idle\<rparr>)
           | Inr detailResponseData \<Rightarrow>
               approval_parsed c extractFileFromData detailResponseData (s\<lparr>poll := Idle\<rparr>))
      | _ \<Rightarrow> s)"

subsection \<open>Runs\<close>

text \<open>
  A run feeds a poller the events of a schedule, oldest first. An event can happen in a
  state when its timer is armed or its promise is awaited; a schedule is feasible when
  each of its events can happen in the state it meets.
\<close>

fun run :: "(event \<Rightarrow> poller \<Rightarrow> poller) \<Rightarrow> poller \<Rightarrow> event list \<Rightarrow> poller" where
  "run step s [] = s"
| "run step s (e # es) = run step (step e s) es"

fun enabled :: "poller \<Rightarrow> event \<Rightarrow> bool" where
  "enabled s AbortFires = (abortTimeout s = Armed)"
| "enabled s CheckFires = (checkTimeout s = Armed)"
| "enabled s (FetchDone r) = (poll s = AwaitFetch)"
| "enabled s JsonDone = (case poll s of AwaitJson r \<Rightarrow> True | _ \<Rightarrow> False)"

fun feasible :: "(event \<Rightarrow> poller \<Rightarrow> poller) \<Rightarrow> poller \<Rightarrow> event list \<Rightarrow> bool" where
  "feasible step s [] = True"
| "feasible step s (e # es) = (enabled s e \<and> feasible step (step e s) es)"

text \<open>A poller in which nothing can happen any more: no timer armed, no poll in flight.\<close>

definition quiet :: "poller \<Rightarrow> bool" where
  "quiet s = (abortTimeout s \<noteq> Armed \<and> checkTimeout s \<noteq> Armed \<and> poll s = Idle)"

text \<open>The requests a trace holds.\<close>

fun requests :: "effect list \<Rightarrow> request list" where
  "requests [] = []"
| "requests (Request q # es) = q # requests es"
| "requests (e # es) = requests es"

section \<open>The workflows\<close>

text \<open>
  One run of a workflow meets one outside world: the file reader, the answers to its
  three single requests, the schedules of events its two pollers meet, how the write
  stream ends, and the files on disk.
\<close>

record world =
  fileFromSync :: file_reader
  uploadAnswer :: "ext_error + response"
  validationSchedule :: "event list"
  submitAnswer :: "ext_error + response"
  approvalSchedule :: "event list"
  downloadAnswer :: "ext_error + response"
  writeAnswer :: write_outcome
  files :: filesystem









section \<open>The workflows as linear pipelines\<close>





section \<open>The specification's names for the client's errors\<close>

text \<open>
  The client throws plain \<^verbatim>\<open>Error\<close>s that differ in their message; the specification
  names them.
\<close>

definition ServiceUnavailable :: "string \<Rightarrow> js_error" where
  "ServiceUnavailable text = Error (''Getting response failed: '' @ text @ ''.'')"

definition BadRequest :: js_error where
  "BadRequest = Error ''Bad Request''"

definition ValidationFailed :: "jsval \<Rightarrow> js_error" where
  "ValidationFailed reportUrl = new_Error reportUrl"

definition ValidationTimeout :: js_error where
  "ValidationTimeout = Error ''Validation Timeout.''"

definition ApprovalTimeout :: js_error where
  "ApprovalTimeout = Error ''Approval Timeout.''"

definition UploadDetailFetchError :: "string \<Rightarrow> js_error" where
  "UploadDetailFetchError text = Error (''Getting upload details failed: '' @ text @ ''.'')"

definition AddonDetailFetchError :: js_error where
  "AddonDetailFetchError = Error ''Getting addon details failed.''"

definition DownloadFailed :: "string \<Rightarrow> js_error" where
  "DownloadFailed text = Error (''Download of signed xpi failed: '' @ text @ ''.'')"

section \<open>Concrete inputs\<close>

definition resp ::
  "int \<Rightarrow> bool \<Rightarrow> string \<Rightarrow> ext_error + jsval \<Rightarrow> bytes option \<Rightarrow> response" where
  "resp st k txt j b = \<lparr>status = st, ok = k, statusText = txt, json = j, body = b\<rparr>"

text \<open>A client with the constructor's default intervals and a token library that signs.\<close>

definition client0 :: client where
  "client0 =
     \<lparr>apiKey = ''key'', apiSecret = ''secret'',
      apiUrlPrefix = ''https://addons.mozilla.org/api/v5/'', apiJwtExpiresIn = 300,
      debugLogging = False, validationCheckInterval = 1000, validationCheckTimeout = 300000,
      approvalCheckInterval = 1000, approvalCheckTimeout = 900000, downloadDir = ''/tmp'',
      defaultJwt = (\<lambda>iss secret expiresIn. Inr ''token'')\<rparr>"

definition upload0 :: jsval where
  "upload0 = obj [(''uuid'', JStr ''abc'')]"

definition pending0 :: jsval where
  "pending0 = obj [(''uuid'', JStr ''abc''), (''processed'', JBool False)]"

definition valid0 :: jsval where
  "valid0 = obj [(''uuid'', JStr ''abc''), (''processed'', JBool True), (''valid'', JBool True)]"

definition invalid0 :: jsval where
  "invalid0 =
     obj [(''uuid'', JStr ''abc''), (''processed'', JBool True), (''valid'', JBool False),
          (''url'', JStr ''https://addons.mozilla.org/upload/abc'')]"

definition notfound0 :: response where
  "notfound0 = resp 404 False ''Not Found'' (Inr (obj [(''detail'', JStr ''Not found.'')])) None"

definition file0 :: jsval where
  "file0 = obj [(''status'', JStr ''public''), (''url'', JStr ''https://addons.mozilla.org/the.xpi'')]"

definition addon0 :: jsval where
  "addon0 = obj [(''slug'', JStr ''my-addon''), (''current_version'', obj [(''file'', file0)])]"

definition version0 :: jsval where
  "version0 = obj [(''id'', JNum 42), (''file'', file0)]"

text \<open>
  A world in which everything succeeds at once: the upload is valid at the first poll
  and the file is public at the first poll.
\<close>

definition world0 :: "jsval \<Rightarrow> world" where
  "world0 submitted =
     \<lparr>fileFromSync = (\<lambda>path. Inr ''xpi bytes''),
      uploadAnswer = Inr (resp 201 True ''Created'' (Inr upload0) None),
      validationSchedule = [FetchDone (Inr (resp 200 True ''OK'' (Inr valid0) None)), JsonDone],
      submitAnswer = Inr (resp 201 True ''Created'' (Inr submitted) None),
      approvalSchedule = [FetchDone (Inr (resp 200 True ''OK'' (Inr submitted) None)), JsonDone],
      downloadAnswer = Inr (resp 200 True ''OK'' (Inl ''not JSON'') (Some ''signed bytes'')),
      writeAnswer = Written,
      files = Map.empty\<rparr>"

definition ok_resp :: "jsval \<Rightarrow> response" where
  "ok_resp d = resp 200 True ''OK'' (Inr d) None"



text \<open>
  Runs of the two pollers from their start: the validation poller on the upload
  \<open>upload0\<close>, the approval poller of a listed new add-on.
\<close>

definition validation_run :: "event list \<Rightarrow> poller" where
  "validation_run evs = run (validation_step client0 upload0) (waitForValidation client0 upload0) evs"

definition approval_url :: string where
  "approval_url = ''https://addons.mozilla.org/api/v5/addons/addon/my-addon/''"

definition approval_run :: "event list \<Rightarrow> poller" where
  "approval_run evs =
     run (approval_step client0 (submitAddon_extractFileFromData ''listed'') approval_url)
       (waitForApproval client0 approval_url) evs"

definition validation_feasible :: "event list \<Rightarrow> bool" where
  "validation_feasible evs =
     feasible (validation_step client0 upload0) (waitForValidation client0 upload0) evs"

definition approval_feasible :: "event list \<Rightarrow> bool" where
  "approval_feasible evs =
     feasible (approval_step client0 (submitAddon_extractFileFromData ''listed'') approval_url)
       (waitForApproval client0 approval_url) evs"

section \<open>Helper lemmas\<close>

lemmas concrete_defs = obj_def resp_def ok_resp_def client0_def upload0_def pending0_def valid0_def
  invalid0_def notfound0_def file0_def addon0_def version0_def world0_def

lemmas poller_defs = waitForValidation_def validation_parsed_def validation_fetched_def
  validation_abort_def waitForApproval_def approval_parsed_def approval_fetched_def
  approval_abort_def poll_call_def catch_block_def emit_def resolve_def reject_def
  clearTimeout_def new_poller_def fetch_def get_prop_def uploadDetailUrl_def
  is_string_body_def


lemma ValidationFailed_string: "ValidationFailed (JStr reportUrl) = Error reportUrl"
  by (simp add: ValidationFailed_def new_Error_def)




lemma quiet_validation_step: "quiet s \<Longrightarrow> validation_step c data e s = s"
  by (cases e) (simp_all add: quiet_def)

lemma quiet_validation_run: "quiet s \<Longrightarrow> run (validation_step c data) s evs = s"
  by (induction evs) (simp_all add: quiet_validation_step)

lemma quiet_approval_step: "quiet s \<Longrightarrow> approval_step c x u e s = s"
  by (cases e) (simp_all add: quiet_def)

lemma quiet_approval_run: "quiet s \<Longrightarrow> run (approval_step c x u) s evs = s"
  by (induction evs) (simp_all add: quiet_approval_step)

lemmas run_defs = validation_run_def approval_run_def validation_feasible_def
  approval_feasible_def approval_url_def submitAddon_extractFileFromData_def





lemma abort_while_waiting_stops_polling:
  assumes "abortTimeout s = Armed" and "poll s = Idle"
  shows "run (validation_step c data) s (AbortFires # evs)
           = reject ValidationTimeout
               (s\<lparr>abortTimeout := Fired, checkTimeout := clearTimeout (checkTimeout s)\<rparr>)"
proof -
  let ?s' = "validation_step c data AbortFires s"
  have s': "?s' = reject ValidationTimeout
               (s\<lparr>abortTimeout := Fired, checkTimeout := clearTimeout (checkTimeout s)\<rparr>)"
    using assms by (simp add: validation_abort_def ValidationTimeout_def)
  have "quiet ?s'"
    unfolding s' using assms by (simp add: quiet_def reject_def clearTimeout_def)
  then have "run (validation_step c data) ?s' evs = ?s'"
    by (rule quiet_validation_run)
  then show ?thesis
    using s' by simp
qed

section \<open>The JSON interpreter\<close>

text \<open>
  What \<^verbatim>\<open>getJson\<close> does with a response whose body parses, and with one whose status
  is out of range: a status below 100 or at or above 500 rejects with the transport
  failure and the body is not read; otherwise a response that is not ok logs the parsed
  body and rejects with \<open>BadRequest\<close>, and an ok response resolves with the parsed body.
\<close>

lemma getJson_parsed_body:
  "(status r < 100 \<or> 500 \<le> status r \<longrightarrow>
      getJson r = (Rejected (ServiceUnavailable (statusText r)), []))
   \<and> (100 \<le> status r \<and> status r < 500 \<and> json r = Inr d \<and> \<not> ok r \<longrightarrow>
      getJson r = (Rejected BadRequest, [ReadJson, Log [d]]))
   \<and> (100 \<le> status r \<and> status r < 500 \<and> json r = Inr d \<and> ok r \<longrightarrow>
      getJson r = (Resolved d, [ReadJson]))"
  by (simp add: getJson_def ServiceUnavailable_def BadRequest_def)

text \<open>
  C6. The specification states that \<^verbatim>\<open>getJson\<close> classifies every response: outside the
  status range a transport failure, inside it \<open>BadRequest\<close> for a non-success status and
  the parsed body for a success status. The body is read by \<^verbatim>\<open>await response.json()\<close> in
  an async executor with no \<^verbatim>\<open>try\<close> around it, where both pollers have one. For a
  response in range whose body is not JSON, a 404 with an HTML page or a 200 with an
  empty body, the read fails, nobody handles the failure, and the promise returned
  neither rejects with \<open>BadRequest\<close> nor resolves: it never settles.
\<close>

theorem getJson_unparsable_body_never_settles:
  "getJson (resp 404 False ''Not Found'' (Inl ''body is not JSON'') None)
     = (Pending, [ReadJson, Unhandled (External ''body is not JSON'')])
   \<and> getJson (resp 200 True ''OK'' (Inl ''body is empty'') None)
     = (Pending, [ReadJson, Unhandled (External ''body is empty'')])"
  by (simp add: getJson_def resp_def)

section \<open>The file extractors\<close>

text \<open>
  C7. The extractor of the new-addon workflow projects a detail record on the file of
  its \<^verbatim>\<open>current_version\<close> for the channel "listed" and on the file of its
  \<^verbatim>\<open>latest_unlisted_version\<close> for the channel "unlisted"; the extractor of the
  new-version workflow projects the record on its \<^verbatim>\<open>file\<close> and takes no channel.
\<close>

theorem extractFileFromData_projection:
  "(fmlookup m ''current_version'' = Some (JObj cv) \<and> fmlookup cv ''file'' = Some f \<longrightarrow>
      submitAddon_extractFileFromData ''listed'' (JObj m) = Inr f)
   \<and> (fmlookup m ''latest_unlisted_version'' = Some (JObj uv) \<and> fmlookup uv ''file'' = Some g \<longrightarrow>
      submitAddon_extractFileFromData ''unlisted'' (JObj m) = Inr g)
   \<and> (fmlookup m ''file'' = Some h \<longrightarrow> submitVersion_extractFileFromData (JObj m) = Inr h)"
  by (simp add: submitAddon_extractFileFromData_def submitVersion_extractFileFromData_def
      get_prop_def)

theorem extractFileFromData_projection_witness:
  "submitAddon_extractFileFromData ''listed''
     (JObj (fmap_of_list
        [(''current_version'', JObj (fmap_of_list [(''file'', JStr ''listed file'')])),
         (''latest_unlisted_version'', JObj (fmap_of_list [(''file'', JStr ''unlisted file'')])),
         (''file'', JStr ''version file'')]))
     = Inr (JStr ''listed file'')
   \<and> submitAddon_extractFileFromData ''unlisted''
     (JObj (fmap_of_list
        [(''current_version'', JObj (fmap_of_list [(''file'', JStr ''listed file'')])),
         (''latest_unlisted_version'', JObj (fmap_of_list [(''file'', JStr ''unlisted file'')])),
         (''file'', JStr ''version file'')]))
     = Inr (JStr ''unlisted file'')
   \<and> submitVersion_extractFileFromData
     (JObj (fmap_of_list
        [(''current_version'', JObj (fmap_of_list [(''file'', JStr ''listed file'')])),
         (''latest_unlisted_version'', JObj (fmap_of_list [(''file'', JStr ''unlisted file'')])),
         (''file'', JStr ''version file'')]))
     = Inr (JStr ''version file'')"
  using extractFileFromData_projection
    [of "fmap_of_list
        [(''current_version'', JObj (fmap_of_list [(''file'', JStr ''listed file'')])),
         (''latest_unlisted_version'', JObj (fmap_of_list [(''file'', JStr ''unlisted file'')])),
         (''file'', JStr ''version file'')]"
      "fmap_of_list [(''file'', JStr ''listed file'')]" "JStr ''listed file''"
      "fmap_of_list [(''file'', JStr ''unlisted file'')]" "JStr ''unlisted file''"
      "JStr ''version file''"]
  by simp

section \<open>Saving the download\<close>

text \<open>
  C9. \<^verbatim>\<open>saveFile\<close> rejects with \<open>DownloadFailed\<close> exactly when the response is not ok
  or has no body. Otherwise the body is written to \<^verbatim>\<open>the.xpi\<close> in the download
  directory, whatever that path held before, and a failure of the stream is the
  rejection of the promise.
\<close>

theorem saveFile_contract:
  "((fst (saveFile c r w fs) = Rejected (DownloadFailed (statusText r)))
      = (\<not> ok r \<or> body r = None))
   \<and> (ok r \<and> body r = Some b \<longrightarrow>
        saveFile c r Written fs = (Resolved JUndefined, fs(downloadDir c @ ''/the.xpi'' \<mapsto> b)))
   \<and> (ok r \<and> body r = Some b \<longrightarrow>
        fst (saveFile c r (WriteFailed e left) fs) = Rejected (External e))"
  by (cases w) (auto simp: saveFile_def DownloadFailed_def Let_def)

theorem saveFile_contract_witness:
  "fst (saveFile client0 (resp 404 False ''Not Found'' (Inl ''x'') (Some ''body'')) Written
          [''/tmp/the.xpi'' \<mapsto> ''old''])
     = Rejected (DownloadFailed ''Not Found'')
   \<and> saveFile client0 (resp 200 True ''OK'' (Inl ''x'') (Some ''new'')) Written
          [''/tmp/the.xpi'' \<mapsto> ''old'']
     = (Resolved JUndefined, [''/tmp/the.xpi'' \<mapsto> ''new''])
   \<and> fst (saveFile client0 (resp 200 True ''OK'' (Inl ''x'') (Some ''new''))
            (WriteFailed ''ENOSPC'' None) [''/tmp/the.xpi'' \<mapsto> ''old''])
     = Rejected (External ''ENOSPC'')"
  using saveFile_contract [of client0 "resp 404 False ''Not Found'' (Inl ''x'') (Some ''body'')"
      Written "[''/tmp/the.xpi'' \<mapsto> ''old'']" "''body''" "''e''" None]
    saveFile_contract [of client0 "resp 200 True ''OK'' (Inl ''x'') (Some ''new'')"
      Written "[''/tmp/the.xpi'' \<mapsto> ''old'']" "''new''" "''ENOSPC''" None]
  by (simp add: resp_def client0_def)

section \<open>Metadata spread over the upload binding\<close>



section \<open>The validation poller\<close>

text \<open>
  What \<^verbatim>\<open>waitForValidation\<close> does with a body whose \<^verbatim>\<open>uuid\<close> is absent or falsy: it
  rejects at once, with \<^verbatim>\<open>new Error(data)\<close>, or with the \<^verbatim>\<open>TypeError\<close> of the property
  read when the body is \<^verbatim>\<open>null\<close>. No timer is set and no request is issued, then or
  under any later events.
\<close>

lemma waitForValidation_without_uuid:
  assumes "\<not> truthy (read_prop data ''uuid'')"
  shows "waitForValidation c data =
           new_poller\<lparr>promise := Rejected (if nullish data then TypeError else new_Error data)\<rparr>
         \<and> run (validation_step c data) (waitForValidation c data) evs
             = waitForValidation c data
         \<and> trace (waitForValidation c data) = []
         \<and> abortTimeout (waitForValidation c data) = Unset"
proof -
  have start: "waitForValidation c data =
      new_poller\<lparr>promise := Rejected (if nullish data then TypeError else new_Error data)\<rparr>"
    using assms
    by (simp add: waitForValidation_def get_prop_def reject_def new_poller_def)
  have "quiet (waitForValidation c data)"
    by (simp add: start quiet_def new_poller_def)
  then have "run (validation_step c data) (waitForValidation c data) evs
      = waitForValidation c data"
    by (rule quiet_validation_run)
  then show ?thesis
    using start by (simp add: new_poller_def)
qed

text \<open>
  C3. The specification states that for every upload response body without a non-empty
  \<^verbatim>\<open>uuid\<close>, \<^verbatim>\<open>waitForValidation\<close> fails with \<open>MalformedResponse\<close> wrapping the raw body,
  with no poll and no timeout. The code rejects with \<^verbatim>\<open>new Error(data)\<close>, and an
  \<^verbatim>\<open>Error\<close> keeps only the string conversion of its argument. Two different bodies
  without a \<^verbatim>\<open>uuid\<close>, one of them holding the service's explanation, are rejected with
  the same error, whose message is the conversion of any object: the raw body is lost.
  No timer is set and no request is issued, as stated.
\<close>

theorem malformed_body_is_not_wrapped:
  "read_prop (obj [(''detail'', JStr ''no id'')]) ''detail'' = JStr ''no id''
   \<and> read_prop (obj []) ''detail'' = JUndefined
   \<and> promise (waitForValidation client0 (obj [(''detail'', JStr ''no id'')]))
       = Rejected (Error ''[object Object]'')
   \<and> promise (waitForValidation client0 (obj [])) = Rejected (Error ''[object Object]'')
   \<and> trace (waitForValidation client0 (obj [(''detail'', JStr ''no id'')])) = []
   \<and> abortTimeout (waitForValidation client0 (obj [(''detail'', JStr ''no id'')])) = Unset"
  by (simp add: waitForValidation_def get_prop_def reject_def new_poller_def new_Error_def
      obj_def)

text \<open>
  C4. When the body of a poll response says \<^verbatim>\<open>processed\<close> and not \<^verbatim>\<open>valid\<close>, the poll
  function clears the abort timer, schedules no further poll, and rejects the promise,
  if it is still pending, with \<open>ValidationFailed\<close> carrying the \<^verbatim>\<open>url\<close> of that body.
\<close>

theorem validation_failed_rejects:
  assumes "poll s = AwaitJson r" and "json r = Inr d"
    and "truthy (read_prop d ''processed'')" and "\<not> truthy (read_prop d ''valid'')"
  shows "abortTimeout (validation_step c data JsonDone s) = clearTimeout (abortTimeout s)
         \<and> abortTimeout (validation_step c data JsonDone s) \<noteq> Armed
         \<and> checkTimeout (validation_step c data JsonDone s) = checkTimeout s
         \<and> poll (validation_step c data JsonDone s) = Idle
         \<and> (promise s = Pending \<longrightarrow>
              promise (validation_step c data JsonDone s)
                = Rejected (ValidationFailed (read_prop d ''url'')))"
proof -
  have "\<not> nullish d"
    using assms(3) by (cases d) simp_all
  then show ?thesis
    using assms
    by (simp add: validation_parsed_def emit_def reject_def clearTimeout_def Let_def
        ValidationFailed_def)
qed

theorem validation_failed_rejects_witness:
  "poll (run (validation_step client0 upload0) (waitForValidation client0 upload0)
           [FetchDone (Inr (ok_resp invalid0))]) = AwaitJson (ok_resp invalid0)
   \<and> json (ok_resp invalid0) = Inr invalid0
   \<and> truthy (read_prop invalid0 ''processed'') \<and> \<not> truthy (read_prop invalid0 ''valid'')
   \<and> promise (run (validation_step client0 upload0) (waitForValidation client0 upload0)
           [FetchDone (Inr (ok_resp invalid0))]) = Pending
   \<and> abortTimeout (run (validation_step client0 upload0) (waitForValidation client0 upload0)
           [FetchDone (Inr (ok_resp invalid0)), JsonDone]) = Cleared
   \<and> promise (run (validation_step client0 upload0) (waitForValidation client0 upload0)
           [FetchDone (Inr (ok_resp invalid0)), JsonDone])
       = Rejected (ValidationFailed (JStr ''https://addons.mozilla.org/upload/abc''))"
proof -
  let ?s = "run (validation_step client0 upload0) (waitForValidation client0 upload0)
           [FetchDone (Inr (ok_resp invalid0))]"
  have s: "?s = \<lparr>promise = Pending, abortTimeout = Armed, checkTimeout = Unset,
      poll = AwaitJson (ok_resp invalid0),
      trace = trace ?s\<rparr>"
    by (simp add: poller_defs concrete_defs ok_resp_def)
  have h1: "poll ?s = AwaitJson (ok_resp invalid0)" by (subst s) simp
  have h2: "json (ok_resp invalid0) = Inr invalid0" by (simp add: ok_resp_def resp_def)
  have h3: "truthy (read_prop invalid0 ''processed'')" by (simp add: invalid0_def obj_def)
  have h4: "\<not> truthy (read_prop invalid0 ''valid'')" by (simp add: invalid0_def obj_def)
  have h5: "promise ?s = Pending" by (subst s) simp
  have h6: "abortTimeout ?s = Armed" by (subst s) simp
  have h7: "read_prop invalid0 ''url'' = JStr ''https://addons.mozilla.org/upload/abc''"
    by (simp add: invalid0_def obj_def)
  have step: "run (validation_step client0 upload0) (waitForValidation client0 upload0)
           [FetchDone (Inr (ok_resp invalid0)), JsonDone]
      = validation_step client0 upload0 JsonDone ?s"
    by simp
  show ?thesis
    using validation_failed_rejects [OF h1 h2 h3 h4, of client0 upload0] h1 h2 h3 h4 h5 h6 h7
    unfolding step by (simp add: clearTimeout_def)
qed

section \<open>The workflows are the pipelines\<close>



section \<open>Where the pollers leave a timer or a poll behind\<close>

text \<open>
  C1. The specification states that a poller which resolves cancels its abort timer. In
  \<^verbatim>\<open>waitForValidation\<close> the branch that resolves calls \<^verbatim>\<open>resolve\<close> and nothing else, while
  the branch beside it, for an invalid upload, and the \<^verbatim>\<open>catch\<close> block both clear the
  timer; \<^verbatim>\<open>waitForApproval\<close> is alike. On the first poll answering valid, and on the
  first poll answering public, the promise resolves, the abort timer stays armed, and it
  fires afterwards.
\<close>

theorem success_leaves_abort_timer_armed:
  "validation_feasible [FetchDone (Inr (ok_resp valid0)), JsonDone, AbortFires]
   \<and> promise (validation_run [FetchDone (Inr (ok_resp valid0)), JsonDone]) = Resolved (JStr ''abc'')
   \<and> abortTimeout (validation_run [FetchDone (Inr (ok_resp valid0)), JsonDone]) = Armed
   \<and> abortTimeout (validation_run [FetchDone (Inr (ok_resp valid0)), JsonDone, AbortFires]) = Fired
   \<and> approval_feasible [FetchDone (Inr (ok_resp addon0)), JsonDone, AbortFires]
   \<and> promise (approval_run [FetchDone (Inr (ok_resp addon0)), JsonDone])
       = Resolved (JStr ''https://addons.mozilla.org/the.xpi'')
   \<and> abortTimeout (approval_run [FetchDone (Inr (ok_resp addon0)), JsonDone]) = Armed
   \<and> abortTimeout (approval_run [FetchDone (Inr (ok_resp addon0)), JsonDone, AbortFires]) = Fired"
  by (simp add: run_defs poller_defs concrete_defs)

text \<open>
  C2. The specification states that a detail response that is not ok fails the poller, cancels its
  timeout and schedules no further poll. \<^verbatim>\<open>waitForValidation\<close> rejects without
  returning: it goes on to parse the body, and the body of a 404 has no \<^verbatim>\<open>processed\<close>,
  so the next poll is scheduled and issued, with the abort timer still armed.
  \<^verbatim>\<open>waitForApproval\<close> returns after rejecting, so it polls no more, but it leaves the
  abort timer armed as well.
\<close>

theorem detail_fetch_not_ok_goes_on:
  "validation_feasible [FetchDone (Inr notfound0), JsonDone, CheckFires]
   \<and> promise (validation_run [FetchDone (Inr notfound0)])
       = Rejected (UploadDetailFetchError ''Not Found'')
   \<and> abortTimeout (validation_run [FetchDone (Inr notfound0), JsonDone]) = Armed
   \<and> checkTimeout (validation_run [FetchDone (Inr notfound0), JsonDone]) = Armed
   \<and> length (requests (trace (validation_run [FetchDone (Inr notfound0), JsonDone]))) = 1
   \<and> length (requests (trace (validation_run [FetchDone (Inr notfound0), JsonDone, CheckFires]))) = 2
   \<and> approval_feasible [FetchDone (Inr notfound0), AbortFires]
   \<and> promise (approval_run [FetchDone (Inr notfound0)]) = Rejected AddonDetailFetchError
   \<and> poll (approval_run [FetchDone (Inr notfound0)]) = Idle
   \<and> checkTimeout (approval_run [FetchDone (Inr notfound0)]) = Unset
   \<and> abortTimeout (approval_run [FetchDone (Inr notfound0)]) = Armed"
  by (simp add: run_defs poller_defs concrete_defs UploadDetailFetchError_def
      AddonDetailFetchError_def)

text \<open>
  C5. The specification states that after the validation timeout no poll request is issued. The
  abort callback clears the poll timer, which stops the polling only while a poll is
  scheduled. When the timeout fires while a request is in flight, here the second poll,
  the promise is rejected with \<open>ValidationTimeout\<close>, and the answer that arrives
  afterwards, not yet processed, schedules the next poll, which is issued.
\<close>

theorem timeout_during_fetch_keeps_polling:
  "validation_feasible
     [FetchDone (Inr (ok_resp pending0)), JsonDone, CheckFires, AbortFires,
      FetchDone (Inr (ok_resp pending0)), JsonDone, CheckFires]
   \<and> poll (validation_run [FetchDone (Inr (ok_resp pending0)), JsonDone, CheckFires])
       = AwaitFetch
   \<and> promise (validation_run
         [FetchDone (Inr (ok_resp pending0)), JsonDone, CheckFires, AbortFires])
       = Rejected ValidationTimeout
   \<and> length (requests (trace (validation_run
         [FetchDone (Inr (ok_resp pending0)), JsonDone, CheckFires, AbortFires]))) = 2
   \<and> checkTimeout (validation_run
         [FetchDone (Inr (ok_resp pending0)), JsonDone, CheckFires, AbortFires,
          FetchDone (Inr (ok_resp pending0)), JsonDone]) = Armed
   \<and> length (requests (trace (validation_run
         [FetchDone (Inr (ok_resp pending0)), JsonDone, CheckFires, AbortFires,
          FetchDone (Inr (ok_resp pending0)), JsonDone, CheckFires]))) = 3
   \<and> promise (validation_run
         [FetchDone (Inr (ok_resp pending0)), JsonDone, CheckFires, AbortFires,
          FetchDone (Inr (ok_resp pending0)), JsonDone, CheckFires])
       = Rejected ValidationTimeout"
  by (simp add: run_defs poller_defs concrete_defs ValidationTimeout_def)

end
